theory Spec2Isabelle
  imports Main "HOL-Library.AList"
begin

section \<open>JavaScript strings\<close>

text \<open>
  A JavaScript string is a sequence of UTF-16 code units and \<open>length\<close> counts code units,
  so a string is modelled as a list of code-unit values. The non-ASCII characters the
  source mentions are all in the basic plane (one code unit each):
  U+2500 = 9472, U+2501 = 9473, U+2550 = 9552, U+23F5 = 9205, U+276F = 10095.
  \<open>js\<close> turns an ASCII literal into such a list.
\<close>

type_synonym jstring = "nat list"

definition js :: "string \<Rightarrow> jstring" where
  "js s = map of_char s"

text \<open>\<open>\s\<close> of a regular expression and the characters removed by \<open>String.prototype.trim\<close>:
  the WhiteSpace and LineTerminator code points of ECMAScript.\<close>

definition is_space :: "nat \<Rightarrow> bool" where
  "is_space c = (c = 9 \<or> c = 10 \<or> c = 11 \<or> c = 12 \<or> c = 13 \<or> c = 32 \<or> c = 160
     \<or> c = 5760 \<or> (8192 \<le> c \<and> c \<le> 8202) \<or> c = 8232 \<or> c = 8233 \<or> c = 8239
     \<or> c = 8287 \<or> c = 12288 \<or> c = 65279)"

text \<open>The characters \<open>.\<close> does not match (no \<open>s\<close> flag): the line terminators.\<close>

definition is_line_term :: "nat \<Rightarrow> bool" where
  "is_line_term c = (c = 10 \<or> c = 13 \<or> c = 8232 \<or> c = 8233)"

definition is_digit :: "nat \<Rightarrow> bool" where
  "is_digit c = (48 \<le> c \<and> c \<le> 57)"

definition is_alpha :: "nat \<Rightarrow> bool" where
  "is_alpha c = ((65 \<le> c \<and> c \<le> 90) \<or> (97 \<le> c \<and> c \<le> 122))"

text \<open>\<open>\w\<close> is \<open>[A-Za-z0-9_]\<close>.\<close>

definition is_word :: "nat \<Rightarrow> bool" where
  "is_word c = (is_alpha c \<or> is_digit c \<or> c = 95)"

definition trim :: "jstring \<Rightarrow> jstring" where
  "trim s = rev (dropWhile is_space (rev (dropWhile is_space s)))"

text \<open>
  Matching under the \<open>i\<close> flag compares canonicalised code units. Every literal of the
  source's patterns is ASCII, and canonicalisation never maps a non-ASCII code unit to an
  ASCII one, so folding the ASCII lower-case letters is the whole relation.
\<close>

definition canon :: "nat \<Rightarrow> nat" where
  "canon c = (if 97 \<le> c \<and> c \<le> 122 then c - 32 else c)"

fun starts_ci :: "jstring \<Rightarrow> jstring \<Rightarrow> bool" where
  "starts_ci [] s = True"
| "starts_ci (p # ps) [] = False"
| "starts_ci (p # ps) (c # cs) = (canon p = canon c \<and> starts_ci ps cs)"

fun startsWith :: "jstring \<Rightarrow> jstring \<Rightarrow> bool" where
  "startsWith [] s = True"
| "startsWith (p # ps) [] = False"
| "startsWith (p # ps) (c # cs) = (p = c \<and> startsWith ps cs)"

text \<open>An unanchored pattern is tried at every position, from the left.\<close>

fun search :: "(jstring \<Rightarrow> bool) \<Rightarrow> jstring \<Rightarrow> bool" where
  "search p [] = p []"
| "search p (c # cs) = (p (c # cs) \<or> search p cs)"

definition includes_str :: "jstring \<Rightarrow> jstring \<Rightarrow> bool" where
  "includes_str pat s = search (startsWith pat) s"

definition includes_ci :: "jstring \<Rightarrow> jstring \<Rightarrow> bool" where
  "includes_ci pat s = search (starts_ci pat) s"

text \<open>\<open>split('\n')\<close>: the pieces between line feeds; the empty string gives one empty piece.\<close>

fun split_nl :: "jstring \<Rightarrow> jstring list" where
  "split_nl [] = [[]]"
| "split_nl (c # cs) =
     (if c = 10 then [] # split_nl cs
      else (case split_nl cs of [] \<Rightarrow> [[c]] | l # ls \<Rightarrow> (c # l) # ls))"


section \<open>Stripping terminal escape sequences (processData)\<close>

text \<open>
  Each \<open>replace(/.../g, '')\<close> scans from the left; where the pattern matches, the match is
  removed and the scan goes on after it, otherwise one code unit is kept. A matcher
  returns the length of the match at the start of its argument. In every pattern of
  the source the repeated class and the class that follows it are disjoint, so the
  greedy match is the only one and no backtracking is needed.
\<close>

function remove_all :: "(jstring \<Rightarrow> nat option) \<Rightarrow> jstring \<Rightarrow> jstring" where
  "remove_all m [] = []"
| "remove_all m (c # cs) =
     (case m (c # cs) of
        None \<Rightarrow> c # remove_all m cs
      | Some n \<Rightarrow> remove_all m (drop (n - 1) cs))"
  by pat_completeness auto
termination
  by (relation "measure (\<lambda>(m, s). length s)") auto

text \<open>\<open>/\x1B\[[0-9;]*[a-zA-Z]/\<close>\<close>

definition m_csi :: "jstring \<Rightarrow> nat option" where
  "m_csi s =
     (case s of
        a # b # rest \<Rightarrow>
          if a = 27 \<and> b = 91 then
            (let ps = takeWhile (\<lambda>c. is_digit c \<or> c = 59) rest in
             case drop (length ps) rest of
               [] \<Rightarrow> None
             | c # _ \<Rightarrow> if is_alpha c then Some (length ps + 3) else None)
          else None
      | _ \<Rightarrow> None)"

text \<open>\<open>/\x1B\][^\x07]*\x07/\<close>\<close>

definition m_osc :: "jstring \<Rightarrow> nat option" where
  "m_osc s =
     (case s of
        a # b # rest \<Rightarrow>
          if a = 27 \<and> b = 93 then
            (let ps = takeWhile (\<lambda>c. \<not> c = 7) rest in
             case drop (length ps) rest of
               [] \<Rightarrow> None
             | c # _ \<Rightarrow> Some (length ps + 3))
          else None
      | _ \<Rightarrow> None)"

text \<open>\<open>/\x1B\[\?[0-9;]*[a-zA-Z]/\<close>\<close>

definition m_dec :: "jstring \<Rightarrow> nat option" where
  "m_dec s =
     (case s of
        a # b # q # rest \<Rightarrow>
          if a = 27 \<and> b = 91 \<and> q = 63 then
            (let ps = takeWhile (\<lambda>c. is_digit c \<or> c = 59) rest in
             case drop (length ps) rest of
               [] \<Rightarrow> None
             | c # _ \<Rightarrow> if is_alpha c then Some (length ps + 4) else None)
          else None
      | _ \<Rightarrow> None)"

text \<open>\<open>/\x1B[()][AB012]/\<close>\<close>

definition m_charset :: "jstring \<Rightarrow> nat option" where
  "m_charset s =
     (case s of
        a # b # c # _ \<Rightarrow>
          if a = 27 \<and> (b = 40 \<or> b = 41) \<and> (c = 65 \<or> c = 66 \<or> c = 48 \<or> c = 49 \<or> c = 50)
          then Some 3 else None
      | _ \<Rightarrow> None)"

text \<open>\<open>/\x1B[>=]/\<close>\<close>

definition m_keypad :: "jstring \<Rightarrow> nat option" where
  "m_keypad s =
     (case s of
        a # b # _ \<Rightarrow> if a = 27 \<and> (b = 62 \<or> b = 61) then Some 2 else None
      | _ \<Rightarrow> None)"

text \<open>\<open>/[\x00-\x08\x0B\x0C\x0E-\x1F]/\<close>\<close>

definition m_ctrl :: "jstring \<Rightarrow> nat option" where
  "m_ctrl s =
     (case s of
        c # _ \<Rightarrow> if c \<le> 8 \<or> c = 11 \<or> c = 12 \<or> (14 \<le> c \<and> c \<le> 31) then Some 1 else None
      | _ \<Rightarrow> None)"

definition cleanData :: "jstring \<Rightarrow> jstring" where
  "cleanData d =
     remove_all m_ctrl (remove_all m_keypad (remove_all m_charset
       (remove_all m_dec (remove_all m_osc (remove_all m_csi d)))))"

section \<open>Line filters and the line classifier\<close>

text \<open>Regular-expression building blocks, in continuation style: \<open>many0 P k\<close> is \<open>P*\<close>
  followed by \<open>k\<close>, \<open>many1 P k\<close> is \<open>P+\<close> followed by \<open>k\<close>.\<close>

definition many0 :: "(nat \<Rightarrow> bool) \<Rightarrow> (jstring \<Rightarrow> bool) \<Rightarrow> jstring \<Rightarrow> bool" where
  "many0 P k s = k (dropWhile P s)"

definition many1 :: "(nat \<Rightarrow> bool) \<Rightarrow> (jstring \<Rightarrow> bool) \<Rightarrow> jstring \<Rightarrow> bool" where
  "many1 P k s = (case s of [] \<Rightarrow> False | c # cs \<Rightarrow> P c \<and> k (dropWhile P cs))"

text \<open>The \<open>uiPatterns\<close> of \<open>processData\<close>, in the source's order.\<close>

definition ui_hline :: "jstring \<Rightarrow> bool" where
  \<comment> \<open>one or more U+2500 (box-drawing horizontal) and nothing else\<close>
  "ui_hline s = (s \<noteq> [] \<and> list_all (\<lambda>c. c = 9472) s)"

definition ui_blank :: "jstring \<Rightarrow> bool" where
  \<comment> \<open>\<open>/^[\s]*$/\<close>\<close>
  "ui_blank s = list_all is_space s"

definition ui_bypass :: "jstring \<Rightarrow> bool" where
  \<comment> \<open>two U+23F5, \<open>\s*\<close>, then \<open>bypass permissions\<close>, ignoring case\<close>
  "ui_bypass s =
     search (\<lambda>t. case t of
                a # b # r \<Rightarrow> a = 9205 \<and> b = 9205 \<and>
                  many0 is_space (starts_ci (js ''bypass permissions'')) r
              | _ \<Rightarrow> False) s"

definition ui_shift_tab :: "jstring \<Rightarrow> bool" where
  \<comment> \<open>\<open>/shift\+tab to cycle/i\<close>\<close>
  "ui_shift_tab s = includes_ci (js ''shift+tab to cycle'') s"

definition ui_mcp :: "jstring \<Rightarrow> bool" where
  \<comment> \<open>\<open>/MCP server/i\<close>\<close>
  "ui_mcp s = includes_ci (js ''MCP server'') s"

definition ui_command_hint :: "jstring \<Rightarrow> bool" where
  \<comment> \<open>\<open>/^\s*\/\w+\s+for\s+info/i\<close>\<close>
  "ui_command_hint s =
     many0 is_space
       (\<lambda>r. case r of
              [] \<Rightarrow> False
            | c # r1 \<Rightarrow> c = 47 \<and>
                many1 is_word (many1 is_space
                  (\<lambda>r3. starts_ci (js ''for'') r3 \<and>
                         many1 is_space (starts_ci (js ''info'')) (drop 3 r3))) r1) s"

definition ui_try :: "jstring \<Rightarrow> bool" where
  \<comment> \<open>\<open>/Try ".*"/\<close>: a closing quote (34) reachable without crossing a line terminator\<close>
  "ui_try s =
     search (\<lambda>t. startsWith (js ''Try '' @ [34]) t \<and>
                 list_ex (\<lambda>c. c = 34) (takeWhile (\<lambda>c. \<not> is_line_term c) (drop 5 t))) s"

definition ui_bracketed :: "jstring \<Rightarrow> bool" where
  \<comment> \<open>\<open>/^\[.*\]$/\<close>\<close>
  "ui_bracketed s =
     (case s of
        [] \<Rightarrow> False
      | c # r \<Rightarrow> c = 91 \<and> r \<noteq> [] \<and> last r = 93 \<and>
          list_all (\<lambda>c. \<not> is_line_term c) (butlast r))"

definition ui_tokens :: "jstring \<Rightarrow> bool" where
  \<comment> \<open>\<open>/^\s*\d+\s+tokens/i\<close>\<close>
  "ui_tokens s =
     many0 is_space (many1 is_digit (many1 is_space (starts_ci (js ''tokens'')))) s"

definition uiPatterns :: "(jstring \<Rightarrow> bool) list" where
  "uiPatterns = [ui_hline, ui_blank, ui_bypass, ui_shift_tab, ui_mcp, ui_command_hint,
     ui_try, ui_bracketed, ui_tokens]"

text \<open>The \<open>skipPatterns\<close> of \<open>parseClaudeOutput\<close>, in the source's order.\<close>

definition skipPatterns :: "(jstring \<Rightarrow> bool) list" where
  "skipPatterns =
     [\<lambda>s. s \<noteq> [] \<and> list_all (\<lambda>c. c = 9472 \<or> c = 9473 \<or> c = 9552) s,
      many0 is_space (\<lambda>r. case r of [] \<Rightarrow> False | c # _ \<Rightarrow> c = 9205),
      includes_ci (js ''bypass permissions''),
      includes_ci (js ''shift+tab''),
      includes_ci (js ''MCP server''),
      search (\<lambda>t. starts_ci (js ''for info'') t \<and> length t = 8),
      startsWith (js ''[?''),
      startsWith (js ''Try '' @ [34])]"

text \<open>The result of \<open>parseClaudeOutput\<close>: its \<open>type\<close> tag with the fields that tag carries
  (\<open>content\<close>; for a tool also \<open>toolName\<close> and \<open>toolInput\<close>).\<close>

datatype parsed =
    ParsedSkip
  | ParsedUser jstring
  | ParsedAssistant jstring
  | ParsedTool jstring jstring jstring
  | ParsedSystem jstring
  | ParsedRaw jstring

definition prompt_marker :: "jstring \<Rightarrow> bool" where
  \<comment> \<open>the first code unit is U+276F or \<open>>\<close>\<close>
  "prompt_marker d = (case d of [] \<Rightarrow> False | c # _ \<Rightarrow> c = 10095 \<or> c = 62)"

definition strip_prompt :: "jstring \<Rightarrow> jstring" where
  \<comment> \<open>the \<open>replace\<close> of the prompt marker, \<open>You:\<close> or \<open>Human:\<close> with the blanks after it: the first alternative that matches\<close>
  "strip_prompt d =
     (if prompt_marker d then dropWhile is_space (tl d)
      else if startsWith (js ''You:'') d then dropWhile is_space (drop 4 d)
      else if startsWith (js ''Human:'') d then dropWhile is_space (drop 6 d)
      else d)"

definition strip_speaker :: "jstring \<Rightarrow> jstring" where
  \<comment> \<open>\<open>data.replace(/^Claude:\s*|^Assistant:\s*/, '')\<close>\<close>
  "strip_speaker d =
     (if startsWith (js ''Claude:'') d then dropWhile is_space (drop 7 d)
      else if startsWith (js ''Assistant:'') d then dropWhile is_space (drop 10 d)
      else d)"

definition tool_names :: "jstring list" where
  "tool_names = [js ''Read'', js ''Write'', js ''Edit'', js ''Bash'', js ''Grep'', js ''Glob'',
     js ''Search'', js ''WebFetch'', js ''Task'']"

text \<open>A tool name (one of \<open>tool_names\<close>, \<open>LS\<close>, \<open>TodoWrite\<close>; case ignored), \<open>\s*\<close>, then a colon or an opening parenthesis: the tool name as written in the line,
  and the rest of the line after the match.\<close>

definition match_tool_call :: "jstring \<Rightarrow> (jstring \<times> jstring) option" where
  "match_tool_call d =
     (case find (\<lambda>n. starts_ci n d \<and>
                  (case dropWhile is_space (drop (length n) d) of
                     [] \<Rightarrow> False | c # _ \<Rightarrow> c = 58 \<or> c = 40))
             (tool_names @ [js ''LS'', js ''TodoWrite'']) of
        None \<Rightarrow> None
      | Some n \<Rightarrow> Some (take (length n) d, tl (dropWhile is_space (drop (length n) d))))"

text \<open>The prefix \<open>Using tool:\<close> or \<open>Tool:\<close>, \<open>\s*\<close>, then one of \<open>tool_names\<close> (case ignored).\<close>

definition match_tool_prefixed :: "jstring \<Rightarrow> jstring \<Rightarrow> (jstring \<times> jstring) option" where
  "match_tool_prefixed pre d =
     (if starts_ci pre d then
        (let r = dropWhile is_space (drop (length pre) d) in
         case find (\<lambda>n. starts_ci n r) tool_names of
           None \<Rightarrow> None
         | Some n \<Rightarrow> Some (take (length n) r, drop (length n) r))
      else None)"

definition toolPatterns :: "(jstring \<Rightarrow> (jstring \<times> jstring) option) list" where
  "toolPatterns = [match_tool_call, match_tool_prefixed (js ''Using tool:''),
     match_tool_prefixed (js ''Tool:'')]"

text \<open>The \<open>for\<close> loop over \<open>toolPatterns\<close>: the first pattern that matches decides.\<close>

fun first_tool :: "(jstring \<Rightarrow> (jstring \<times> jstring) option) list \<Rightarrow> jstring \<Rightarrow>
    (jstring \<times> jstring) option" where
  "first_tool [] d = None"
| "first_tool (p # ps) d = (case p d of None \<Rightarrow> first_tool ps d | Some r \<Rightarrow> Some r)"

definition is_system_line :: "jstring \<Rightarrow> bool" where
  "is_system_line d =
     (includes_str (js ''Session started'') d \<or> includes_str (js ''Process exited'') d \<or>
      starts_ci (js ''Error:'') d \<or> includes_str (js ''Connection'') d)"

definition parseClaudeOutput :: "jstring \<Rightarrow> parsed" where
  "parseClaudeOutput d =
     (let trimmed = trim d in
      if length trimmed < 2 then ParsedSkip
      else if list_ex (\<lambda>p. p trimmed) skipPatterns then ParsedSkip
      else if (case d of c # e # _ \<Rightarrow> (c = 10095 \<or> c = 62) \<and> is_space e | _ \<Rightarrow> False) \<or>
              startsWith (js ''You:'') d \<or> startsWith (js ''Human:'') d then
        (let c = trim (strip_prompt d) in if c = [] then ParsedSkip else ParsedUser c)
      else if startsWith (js ''Claude:'') d \<or> startsWith (js ''Assistant:'') d then
        ParsedAssistant (strip_speaker d)
      else
        (case first_tool toolPatterns d of
           Some (n, i) \<Rightarrow> ParsedTool d n i
         | None \<Rightarrow> if is_system_line d then ParsedSystem d else ParsedRaw d))"

section \<open>The client: message store and output parser (useSession, sessions store)\<close>

datatype role = UserRole | AssistantRole | ToolRole | SystemRole

text \<open>A \<open>Message\<close>. Its id is \<open>msg_<counter>_<Date.now()>\<close> in the source; the model keeps
  the counter, which alone makes ids distinct. The timestamp is not modelled.\<close>

record message =
  msg_id :: nat
  role :: role
  content :: jstring
  toolName :: "jstring option"
  toolInput :: "jstring option"
  isStreaming :: bool

record OutputParser =
  currentRole :: "role option"
  buffer :: jstring
  currentMessageId :: "nat option"

datatype log_type = Stdout | Stderr | SystemLog

record LogEntry =
  log_type :: log_type
  log_content :: jstring

text \<open>What travels on the socket.\<close>

datatype client_msg =
    Subscribe jstring
  | Unsubscribe
  | Input jstring
  | Resize int int

datatype server_msg =
    LogsMsg "LogEntry list"
  | DataMsg jstring log_type
  | ExitMsg int

text \<open>The state a \<open>useSession\<close> hook works on: its parser (\<open>parserRef\<close>), the store's
  \<open>sessionMessages\<close>, the module's \<open>messageCounter\<close>, and what has been sent on its
  socket. The store's \<open>sessions\<close> and \<open>sessionLogs\<close> slices are written by the handlers
  but never read by them, and are left out.\<close>

record client =
  parser :: OutputParser
  sessionMessages :: "jstring \<rightharpoonup> message list"
  messageCounter :: nat
  sent :: "client_msg list"

definition createMessage :: "client \<Rightarrow> role \<Rightarrow> jstring \<Rightarrow> message \<times> client" where
  "createMessage st r c =
     (\<lparr>msg_id = messageCounter st + 1, role = r, content = c, toolName = None,
       toolInput = None, isStreaming = False\<rparr>,
      st\<lparr>messageCounter := messageCounter st + 1\<rparr>)"

definition messages_of :: "client \<Rightarrow> jstring \<Rightarrow> message list" where
  \<comment> \<open>\<open>sessionMessages.get(sessionId) || []\<close>\<close>
  "messages_of st sid = (case sessionMessages st sid of None \<Rightarrow> [] | Some ms \<Rightarrow> ms)"

definition addMessage :: "client \<Rightarrow> jstring \<Rightarrow> message \<Rightarrow> client" where
  "addMessage st sid m =
     st\<lparr>sessionMessages := (sessionMessages st)(sid \<mapsto> messages_of st sid @ [m])\<rparr>"

definition updateMessage :: "client \<Rightarrow> jstring \<Rightarrow> nat \<Rightarrow> (message \<Rightarrow> message) \<Rightarrow> client" where
  "updateMessage st sid mid upd =
     st\<lparr>sessionMessages := (sessionMessages st)
          (sid \<mapsto> map (\<lambda>m. if msg_id m = mid then upd m else m) (messages_of st sid))\<rparr>"

text \<open>The guard \<open>parser.currentRole === 'assistant' && parser.currentMessageId\<close>: the id of
  the open assistant message, if one is open.\<close>

definition open_message :: "OutputParser \<Rightarrow> nat option" where
  "open_message p = (if currentRole p = Some AssistantRole then currentMessageId p else None)"

definition finalize_open :: "client \<Rightarrow> jstring \<Rightarrow> client" where
  \<comment> \<open>\<open>updateMessage(sessionId, parser.currentMessageId, {isStreaming: false})\<close> under the guard\<close>
  "finalize_open st sid =
     (case open_message (parser st) of
        None \<Rightarrow> st
      | Some mid \<Rightarrow> updateMessage st sid mid (\<lambda>m. m\<lparr>isStreaming := False\<rparr>))"

definition accumulate :: "client \<Rightarrow> jstring \<Rightarrow> jstring \<Rightarrow> client" where
  \<comment> \<open>the last branch of the loop body: raw content goes into the assistant message\<close>
  "accumulate st sid line =
     (case open_message (parser st) of
        None \<Rightarrow>
          (let (m, st1) = createMessage st AssistantRole line;
               st2 = addMessage st1 sid (m\<lparr>isStreaming := True\<rparr>)
           in st2\<lparr>parser := \<lparr>currentRole = Some AssistantRole, buffer = line,
                               currentMessageId = Some (msg_id m)\<rparr>\<rparr>)
      | Some mid \<Rightarrow>
          (let buf = buffer (parser st) @ 10 # line;
               st1 = st\<lparr>parser := (parser st)\<lparr>buffer := buf\<rparr>\<rparr>
           in updateMessage st1 sid mid (\<lambda>m. m\<lparr>content := buf, isStreaming := True\<rparr>)))"

text \<open>The body of the loop over the lines of a chunk.\<close>

definition process_line :: "jstring \<Rightarrow> client \<Rightarrow> jstring \<Rightarrow> client" where
  "process_line sid st line =
     (let trimmed = trim line in
      if trimmed = [] then st
      else if list_ex (\<lambda>p. p trimmed) uiPatterns then st
      else if length trimmed < 3 \<and> \<not> list_ex is_alpha trimmed then st
      else
        (case parseClaudeOutput trimmed of
           ParsedSkip \<Rightarrow> st
         | ParsedUser c \<Rightarrow>
             (case open_message (parser st) of
                None \<Rightarrow> st
              | Some mid \<Rightarrow>
                  (updateMessage st sid mid (\<lambda>m. m\<lparr>isStreaming := False\<rparr>))
                    \<lparr>parser := \<lparr>currentRole = None, buffer = [], currentMessageId = None\<rparr>\<rparr>)
         | ParsedTool c n i \<Rightarrow>
             (let st1 = finalize_open st sid;
                  (m, st2) = createMessage st1 ToolRole c;
                  st3 = addMessage st2 sid (m\<lparr>toolName := Some n, toolInput := Some i\<rparr>)
              in st3\<lparr>parser := (parser st3)\<lparr>currentRole := None, currentMessageId := None\<rparr>\<rparr>)
         | ParsedSystem c \<Rightarrow>
             (let (m, st1) = createMessage st SystemRole c in addMessage st1 sid m)
         | ParsedAssistant c \<Rightarrow> accumulate st sid line
         | ParsedRaw c \<Rightarrow> accumulate st sid line))"

text \<open>The loop over a list of lines, and \<open>processData\<close>: the loop over the lines of a
  cleaned chunk.\<close>

definition process_lines :: "jstring \<Rightarrow> client \<Rightarrow> jstring list \<Rightarrow> client" where
  "process_lines sid st ls = foldl (process_line sid) st ls"

definition processData :: "jstring \<Rightarrow> client \<Rightarrow> jstring \<Rightarrow> client" where
  "processData sid st d = process_lines sid st (split_nl (cleanData d))"



text \<open>Decimal text of the exit code, for the template literal of the exit message.\<close>

function nat_str :: "nat \<Rightarrow> jstring" where
  "nat_str n = (if n < 10 then [48 + n] else nat_str (n div 10) @ [48 + n mod 10])"
  by pat_completeness auto
termination
  by (relation "measure id") auto

definition int_str :: "int \<Rightarrow> jstring" where
  "int_str i = (if i < 0 then 45 # nat_str (nat (- i)) else nat_str (nat i))"

text \<open>\<open>ws.onmessage\<close> of the hook for session \<open>sid\<close>.\<close>

fun onmessage :: "jstring \<Rightarrow> client \<Rightarrow> server_msg \<Rightarrow> client" where
  "onmessage sid st (LogsMsg ls) = foldl (\<lambda>s l. processData sid s (log_content l)) st ls"
| "onmessage sid st (DataMsg d t) = processData sid st d"
| "onmessage sid st (ExitMsg code) =
     (let st1 = (case currentMessageId (parser st) of
                   None \<Rightarrow> st
                 | Some mid \<Rightarrow> updateMessage st sid mid (\<lambda>m. m\<lparr>isStreaming := False\<rparr>));
          (m, st2) = createMessage st1 SystemRole (js ''Process exited with code '' @ int_str code)
      in addMessage st2 sid m)"

text \<open>The effect that starts a subscription resets the parser.\<close>

definition reset_parser :: "client \<Rightarrow> client" where
  "reset_parser st = st\<lparr>parser := \<lparr>currentRole = None, buffer = [], currentMessageId = None\<rparr>\<rparr>"

definition init_client :: client where
  "init_client = \<lparr>parser = \<lparr>currentRole = None, buffer = [], currentMessageId = None\<rparr>,
     sessionMessages = Map.empty, messageCounter = 0, sent = []\<rparr>"

text \<open>\<open>sendInput\<close> of the hook. \<open>ws_open\<close> is \<open>wsRef.current?.readyState === OPEN\<close>,
  \<open>sessionId\<close> the hook's argument. Everything before \<open>ws.send\<close> is \<open>sendInput_prepare\<close>;
  \<open>ws_send\<close> is the dispatch.\<close>

definition strip_final_nl :: "jstring \<Rightarrow> jstring" where
  \<comment> \<open>\<open>data.replace(/\n$/, '')\<close>\<close>
  "strip_final_nl d = (if d \<noteq> [] \<and> last d = 10 then butlast d else d)"

definition ws_send :: "client \<Rightarrow> client_msg \<Rightarrow> client" where
  "ws_send st m = st\<lparr>sent := sent st @ [m]\<rparr>"

definition sendInput_prepare :: "jstring option \<Rightarrow> client \<Rightarrow> jstring \<Rightarrow> client" where
  "sendInput_prepare sessionId st d =
     (if trim d \<noteq> [] \<and> d \<noteq> [3] then
        (let (userMsg, st1) = createMessage st UserRole (strip_final_nl d) in
         case sessionId of
           None \<Rightarrow> st1
         | Some sid \<Rightarrow>
             (let st2 = addMessage st1 sid userMsg in
              case open_message (parser st2) of
                None \<Rightarrow> st2
              | Some mid \<Rightarrow>
                  (updateMessage st2 sid mid (\<lambda>m. m\<lparr>isStreaming := False\<rparr>))
                    \<lparr>parser := \<lparr>currentRole = None, buffer = [], currentMessageId = None\<rparr>\<rparr>))
      else st)"

definition sendInput :: "bool \<Rightarrow> jstring option \<Rightarrow> client \<Rightarrow> jstring \<Rightarrow> client" where
  "sendInput ws_open sessionId st d =
     (if ws_open then ws_send (sendInput_prepare sessionId st d) (Input d) else st)"

section \<open>The session manager (SessionManager)\<close>

datatype status = Running | Stopped | Error

text \<open>A \<open>Session\<close>; \<open>pty\<close> is the handle of its process or \<open>None\<close> for \<open>null\<close>. The
  creation time is not modelled.\<close>

record Session =
  sess_id :: jstring
  sess_name :: jstring
  workingDir :: jstring
  pty :: "nat option"
  status :: status
  logs :: "LogEntry list"

text \<open>
  A pseudo-terminal process is an object of the node-pty library, outside the repository.
  The model records what the manager does to it: the session object and session id its
  \<open>onData\<close>/\<open>onExit\<close> callbacks closed over, its working directory and size, the
  data written to it, whether \<open>kill\<close> was called, and whether it has reported its exit.
  Of the library's own failures the model keeps those of \<open>resize\<close>, which throws for a
  size that is not positive and, once the process has reported its exit, for the closed
  file descriptor.
\<close>

datatype pty_error = BadSize | BadFileDescriptor

record pty_proc =
  owner :: nat
  owner_id :: jstring
  cwd :: jstring
  cols :: int
  rows :: int
  written :: "jstring list"
  killed :: bool
  exited :: bool

text \<open>
  Session objects are mutable and shared: the registry and the callbacks of every process
  spawned for a session hold the same object. So the objects live in a store (\<open>objs\<close>,
  addressed by allocation number), the registry \<open>sessions\<close> (a JavaScript \<open>Map\<close>, in
  insertion order) maps ids to addresses, and \<open>procs\<close> is the store of processes.
\<close>

record manager =
  objs :: "nat \<Rightarrow> Session"
  next_obj :: nat
  sessions :: "(jstring \<times> nat) list"
  procs :: "nat \<Rightarrow> pty_proc"
  next_proc :: nat

definition init_manager :: manager where
  "init_manager =
     \<lparr>objs = (\<lambda>_. \<lparr>sess_id = [], sess_name = [], workingDir = [], pty = None,
                     status = Stopped, logs = []\<rparr>),
      next_obj = 0, sessions = [],
      procs = (\<lambda>_. \<lparr>owner = 0, owner_id = [], cwd = [], cols = 0, rows = 0, written = [],
                      killed = False, exited = False\<rparr>),
      next_proc = 0\<rparr>"

text \<open>\<open>uuid\<close> is the result of \<open>uuidv4()\<close>.\<close>

definition createSession :: "manager \<Rightarrow> jstring \<Rightarrow> jstring \<Rightarrow> jstring \<Rightarrow> Session \<times> manager" where
  "createSession m uuid name dir =
     (let s = \<lparr>sess_id = uuid,
               sess_name = (if name = [] then js ''Session '' @ nat_str (length (sessions m) + 1)
                            else name),
               workingDir = dir, pty = None, status = Stopped, logs = []\<rparr>;
          r = next_obj m
      in (s, m\<lparr>objs := (objs m)(r := s), next_obj := r + 1,
               sessions := AList.update uuid r (sessions m)\<rparr>))"

text \<open>\<open>spawn_ok\<close> says whether \<open>pty.spawn\<close> returns a process (it throws otherwise).\<close>

definition startSession :: "manager \<Rightarrow> jstring \<Rightarrow> bool \<Rightarrow> bool \<times> manager" where
  "startSession m sessionId spawn_ok =
     (case map_of (sessions m) sessionId of
        None \<Rightarrow> (False, m)
      | Some r \<Rightarrow>
          if spawn_ok then
            (let h = next_proc m;
                 p = \<lparr>owner = r, owner_id = sessionId, cwd = workingDir (objs m r),
                      cols = 120, rows = 40, written = [], killed = False, exited = False\<rparr>
             in (True, m\<lparr>procs := (procs m)(h := p), next_proc := h + 1,
                         objs := (objs m)(r := (objs m r)\<lparr>pty := Some h, status := Running\<rparr>)\<rparr>))
          else (False, m\<lparr>objs := (objs m)(r := (objs m r)\<lparr>status := Error\<rparr>)\<rparr>))"

text \<open>The \<open>onData\<close> and \<open>onExit\<close> callbacks wired by \<open>startSession\<close> for process \<open>h\<close>.\<close>

definition pty_onData :: "manager \<Rightarrow> nat \<Rightarrow> jstring \<Rightarrow> manager" where
  "pty_onData m h d =
     (let r = owner (procs m h) in
      m\<lparr>objs := (objs m)(r := (objs m r)
           \<lparr>logs := logs (objs m r) @ [\<lparr>log_type = Stdout, log_content = d\<rparr>]\<rparr>)\<rparr>)"

definition pty_onExit :: "manager \<Rightarrow> nat \<Rightarrow> int \<Rightarrow> manager" where
  "pty_onExit m h exitCode =
     (let r = owner (procs m h) in
      m\<lparr>objs := (objs m)(r := (objs m r)
           \<lparr>status := Stopped,
            logs := logs (objs m r) @
              [\<lparr>log_type = SystemLog,
                log_content = js ''Process exited with code '' @ int_str exitCode\<rparr>]\<rparr>),
        procs := (procs m)(h := (procs m h)\<lparr>exited := True\<rparr>)\<rparr>)"

definition sendInput_mgr :: "manager \<Rightarrow> jstring \<Rightarrow> jstring \<Rightarrow> bool \<times> manager" where
  "sendInput_mgr m sessionId d =
     (case map_of (sessions m) sessionId of
        None \<Rightarrow> (False, m)
      | Some r \<Rightarrow>
          (case pty (objs m r) of
             None \<Rightarrow> (False, m)
           | Some h \<Rightarrow>
               (True, m\<lparr>procs := (procs m)(h := (procs m h)
                           \<lparr>written := written (procs m h) @ [d]\<rparr>)\<rparr>)))"

text \<open>\<open>resizeSession\<close> has no \<open>try\<close>: what \<open>session.pty.resize\<close> throws leaves the method
  as an exception (\<open>Inl\<close>), with the manager as it was.\<close>

definition resizeSession ::
    "manager \<Rightarrow> jstring \<Rightarrow> int \<Rightarrow> int \<Rightarrow> pty_error + bool \<times> manager" where
  "resizeSession m sessionId c r' =
     (case map_of (sessions m) sessionId of
        None \<Rightarrow> Inr (False, m)
      | Some r \<Rightarrow>
          (case pty (objs m r) of
             None \<Rightarrow> Inr (False, m)
           | Some h \<Rightarrow>
               if c \<le> 0 \<or> r' \<le> 0 then Inl BadSize
               else if exited (procs m h) then Inl BadFileDescriptor
               else Inr (True,
                 m\<lparr>procs := (procs m)(h := (procs m h)\<lparr>cols := c, rows := r'\<rparr>)\<rparr>)))"

definition stopSession :: "manager \<Rightarrow> jstring \<Rightarrow> bool \<times> manager" where
  "stopSession m sessionId =
     (case map_of (sessions m) sessionId of
        None \<Rightarrow> (False, m)
      | Some r \<Rightarrow>
          (case pty (objs m r) of
             None \<Rightarrow> (False, m)
           | Some h \<Rightarrow>
               (True, m\<lparr>procs := (procs m)(h := (procs m h)\<lparr>killed := True\<rparr>),
                         objs := (objs m)(r := (objs m r)\<lparr>status := Stopped\<rparr>)\<rparr>)))"

definition deleteSession :: "manager \<Rightarrow> jstring \<Rightarrow> bool \<times> manager" where
  "deleteSession m sessionId =
     (case map_of (sessions m) sessionId of
        None \<Rightarrow> (False, m)
      | Some r \<Rightarrow>
          (let m1 = (case pty (objs m r) of
                       None \<Rightarrow> m
                     | Some h \<Rightarrow> m\<lparr>procs := (procs m)(h := (procs m h)\<lparr>killed := True\<rparr>)\<rparr>)
           in (True, m1\<lparr>sessions := AList.delete sessionId (sessions m1)\<rparr>)))"

text \<open>\<open>limit\<close> is \<open>None\<close> for \<open>undefined\<close>; \<open>0\<close> is falsy as well. \<open>slice(-limit)\<close> keeps the
  last \<open>limit\<close> entries, and for a negative \<open>limit\<close> drops the first \<open>-limit\<close>.\<close>

definition getLogs :: "manager \<Rightarrow> jstring \<Rightarrow> int option \<Rightarrow> LogEntry list" where
  "getLogs m sessionId limit =
     (case map_of (sessions m) sessionId of
        None \<Rightarrow> []
      | Some r \<Rightarrow>
          (case limit of
             None \<Rightarrow> logs (objs m r)
           | Some l \<Rightarrow>
               if l = 0 then logs (objs m r)
               else if 0 < l then drop (length (logs (objs m r)) - nat l) (logs (objs m r))
               else drop (nat (- l)) (logs (objs m r))))"

text \<open>What can happen to a manager: a call of one of its methods, or a process reporting
  data or its exit. A process reports only once spawned, and nothing after its exit.\<close>

datatype mgr_event =
    EvCreate jstring jstring jstring
  | EvStart jstring bool
  | EvSendInput jstring jstring
  | EvResize jstring int int
  | EvStop jstring
  | EvDelete jstring
  | EvPtyData nat jstring
  | EvPtyExit nat int

fun mgr_step :: "manager \<Rightarrow> mgr_event \<Rightarrow> manager" where
  "mgr_step m (EvCreate uuid name dir) = snd (createSession m uuid name dir)"
| "mgr_step m (EvStart i ok) = snd (startSession m i ok)"
| "mgr_step m (EvSendInput i d) = snd (sendInput_mgr m i d)"
| "mgr_step m (EvResize i c r) =
     (case resizeSession m i c r of Inl e \<Rightarrow> m | Inr (b, m') \<Rightarrow> m')"
| "mgr_step m (EvStop i) = snd (stopSession m i)"
| "mgr_step m (EvDelete i) = snd (deleteSession m i)"
| "mgr_step m (EvPtyData h d) =
     (if h < next_proc m \<and> \<not> exited (procs m h) then pty_onData m h d else m)"
| "mgr_step m (EvPtyExit h code) =
     (if h < next_proc m \<and> \<not> exited (procs m h) then pty_onExit m h code else m)"

definition mgr_run :: "mgr_event list \<Rightarrow> manager" where
  "mgr_run evs = foldl mgr_step init_manager evs"

section \<open>The server: socket connections and fanout\<close>

text \<open>A connection: the \<open>subscribedSessionId\<close> of its handler's closure, whether its
  \<open>readyState\<close> is \<open>OPEN\<close>, and what the server has sent to it.\<close>

record connection =
  subscribedSessionId :: "jstring option"
  is_open :: bool
  received :: "server_msg list"

record server =
  mgr :: manager
  sessionConnections :: "jstring \<rightharpoonup> nat set"
  conns :: "nat \<Rightarrow> connection"
  next_conn :: nat

definition init_server :: server where
  "init_server = \<lparr>mgr = init_manager, sessionConnections = Map.empty,
     conns = (\<lambda>_. \<lparr>subscribedSessionId = None, is_open = False, received = []\<rparr>),
     next_conn = 0\<rparr>"

definition on_connection :: "server \<Rightarrow> server" where
  "on_connection srv =
     srv\<lparr>conns := (conns srv)(next_conn srv :=
            \<lparr>subscribedSessionId = None, is_open = True, received = []\<rparr>),
         next_conn := next_conn srv + 1\<rparr>"

definition send_to :: "server \<Rightarrow> nat \<Rightarrow> server_msg \<Rightarrow> server" where
  "send_to srv w msg =
     srv\<lparr>conns := (conns srv)(w := (conns srv w)\<lparr>received := received (conns srv w) @ [msg]\<rparr>)\<rparr>"

text \<open>The test \<open>if (subscribedSessionId)\<close>: \<open>null\<close> and the empty string are falsy.\<close>

definition subscribed :: "connection \<Rightarrow> jstring option" where
  "subscribed c =
     (case subscribedSessionId c of
        None \<Rightarrow> None
      | Some i \<Rightarrow> if i = [] then None else Some i)"

definition drop_connection :: "server \<Rightarrow> jstring \<Rightarrow> nat \<Rightarrow> server" where
  \<comment> \<open>\<open>sessionConnections.get(id)?.delete(ws)\<close>\<close>
  "drop_connection srv i w =
     (case sessionConnections srv i of
        None \<Rightarrow> srv
      | Some S \<Rightarrow> srv\<lparr>sessionConnections := (sessionConnections srv)(i \<mapsto> S - {w})\<rparr>)"

text \<open>The message handler; its \<open>try\<close>/\<open>catch\<close> logs what a call throws and goes on.\<close>

fun on_message :: "server \<Rightarrow> nat \<Rightarrow> client_msg \<Rightarrow> server" where
  "on_message srv w (Subscribe i) =
     (let srv1 = srv\<lparr>conns := (conns srv)(w := (conns srv w)\<lparr>subscribedSessionId := Some i\<rparr>)\<rparr>;
          S = (case sessionConnections srv1 i of None \<Rightarrow> {} | Some S \<Rightarrow> S);
          srv2 = srv1\<lparr>sessionConnections := (sessionConnections srv1)(i \<mapsto> insert w S)\<rparr>
      in send_to srv2 w (LogsMsg (getLogs (mgr srv2) i (Some 100))))"
| "on_message srv w (Input d) =
     (case subscribed (conns srv w) of
        None \<Rightarrow> srv
      | Some i \<Rightarrow> srv\<lparr>mgr := snd (sendInput_mgr (mgr srv) i d)\<rparr>)"
| "on_message srv w (Resize c r) =
     (case subscribed (conns srv w) of
        None \<Rightarrow> srv
      | Some i \<Rightarrow>
          (case resizeSession (mgr srv) i c r of
             Inl e \<Rightarrow> srv
           | Inr (b, m') \<Rightarrow> srv\<lparr>mgr := m'\<rparr>))"
| "on_message srv w Unsubscribe =
     (case subscribed (conns srv w) of
        None \<Rightarrow> srv
      | Some i \<Rightarrow>
          (let srv1 = drop_connection srv i w in
           srv1\<lparr>conns := (conns srv1)(w := (conns srv1 w)\<lparr>subscribedSessionId := None\<rparr>)\<rparr>))"

definition on_close :: "server \<Rightarrow> nat \<Rightarrow> server" where
  "on_close srv w =
     (let srv1 = srv\<lparr>conns := (conns srv)(w := (conns srv w)\<lparr>is_open := False\<rparr>)\<rparr> in
      case subscribed (conns srv1 w) of
        None \<Rightarrow> srv1
      | Some i \<Rightarrow> drop_connection srv1 i w)"

text \<open>The listeners of \<open>session:data\<close> and \<open>session:exit\<close>: every open connection in the
  session's set gets the message.\<close>

definition fanout :: "server \<Rightarrow> jstring \<Rightarrow> server_msg \<Rightarrow> server" where
  "fanout srv i msg =
     (case sessionConnections srv i of
        None \<Rightarrow> srv
      | Some S \<Rightarrow>
          srv\<lparr>conns := (\<lambda>w. if w \<in> S \<and> is_open (conns srv w)
                               then (conns srv w)\<lparr>received := received (conns srv w) @ [msg]\<rparr>
                               else conns srv w)\<rparr>)"

text \<open>A process reports data or its exit: the manager's callback runs, then the event it
  emits reaches the fanout listener.\<close>

definition srv_pty_data :: "server \<Rightarrow> nat \<Rightarrow> jstring \<Rightarrow> server" where
  "srv_pty_data srv h d =
     (if h < next_proc (mgr srv) \<and> \<not> exited (procs (mgr srv) h) then
        fanout (srv\<lparr>mgr := pty_onData (mgr srv) h d\<rparr>) (owner_id (procs (mgr srv) h))
          (DataMsg d Stdout)
      else srv)"

definition srv_pty_exit :: "server \<Rightarrow> nat \<Rightarrow> int \<Rightarrow> server" where
  "srv_pty_exit srv h code =
     (if h < next_proc (mgr srv) \<and> \<not> exited (procs (mgr srv) h) then
        fanout (srv\<lparr>mgr := pty_onExit (mgr srv) h code\<rparr>) (owner_id (procs (mgr srv) h))
          (ExitMsg code)
      else srv)"

text \<open>The REST routes call the manager. The manager's \<open>session:created\<close>, \<open>session:started\<close>,
  \<open>session:stopped\<close>, \<open>session:deleted\<close> and \<open>session:error\<close> events have no listener.\<close>

definition api_create :: "server \<Rightarrow> jstring \<Rightarrow> jstring \<Rightarrow> jstring \<Rightarrow> server" where
  "api_create srv uuid name dir = srv\<lparr>mgr := snd (createSession (mgr srv) uuid name dir)\<rparr>"

definition api_start :: "server \<Rightarrow> jstring \<Rightarrow> bool \<Rightarrow> bool \<times> server" where
  "api_start srv i ok = (let (b, m) = startSession (mgr srv) i ok in (b, srv\<lparr>mgr := m\<rparr>))"

definition api_stop :: "server \<Rightarrow> jstring \<Rightarrow> bool \<times> server" where
  "api_stop srv i = (let (b, m) = stopSession (mgr srv) i in (b, srv\<lparr>mgr := m\<rparr>))"

definition api_delete :: "server \<Rightarrow> jstring \<Rightarrow> bool \<times> server" where
  "api_delete srv i = (let (b, m) = deleteSession (mgr srv) i in (b, srv\<lparr>mgr := m\<rparr>))"

section \<open>Invariant of the manager\<close>

text \<open>
  A session object marked running has a process; the process a session object points to
  was spawned for that object (its callbacks closed over it), and has not reported its
  exit while the object is marked running.
\<close>

definition tracked :: "manager \<Rightarrow> bool" where
  "tracked m =
     ((\<forall>r. status (objs m r) = Running \<longrightarrow> pty (objs m r) \<noteq> None) \<and>
      (\<forall>r h. pty (objs m r) = Some h \<longrightarrow>
         h < next_proc m \<and> owner (procs m h) = r \<and>
         (status (objs m r) = Running \<longrightarrow> \<not> exited (procs m h))))"

section \<open>Evaluation\<close>

text \<open>The definitions to unfold when a function is evaluated at a concrete input.\<close>

lemmas str_defs = js_def trim_def is_space_def is_line_term_def is_digit_def is_alpha_def
  is_word_def canon_def includes_str_def includes_ci_def many0_def many1_def

lemmas clean_defs = cleanData_def m_csi_def m_osc_def m_dec_def m_charset_def m_keypad_def
  m_ctrl_def

lemmas ui_defs = uiPatterns_def ui_hline_def ui_blank_def ui_bypass_def ui_shift_tab_def
  ui_mcp_def ui_command_hint_def ui_try_def ui_bracketed_def ui_tokens_def

lemmas parse_defs = parseClaudeOutput_def skipPatterns_def prompt_marker_def strip_prompt_def
  strip_speaker_def tool_names_def match_tool_call_def match_tool_prefixed_def
  toolPatterns_def is_system_line_def

lemmas client_defs = createMessage_def messages_of_def addMessage_def updateMessage_def
  open_message_def finalize_open_def accumulate_def process_line_def process_lines_def processData_def
  init_client_def Let_def

lemmas mgr_defs = init_manager_def createSession_def startSession_def pty_onData_def
  pty_onExit_def sendInput_mgr_def resizeSession_def stopSession_def deleteSession_def
  getLogs_def mgr_run_def Let_def

lemmas srv_defs = init_server_def on_connection_def send_to_def subscribed_def
  drop_connection_def on_close_def fanout_def srv_pty_data_def srv_pty_exit_def
  api_create_def api_start_def api_stop_def api_delete_def

section \<open>The example scenario\<close>

text \<open>The client state after the chunk \<open>Hello\<close>: one streaming assistant message is open.\<close>

lemma after_hello:
  "processData (js ''demo'') init_client (js ''Hello'') =
     \<lparr>parser = \<lparr>currentRole = Some AssistantRole, buffer = js ''Hello'',
                 currentMessageId = Some 1\<rparr>,
      sessionMessages = [js ''demo'' \<mapsto>
        [\<lparr>msg_id = 1, role = AssistantRole, content = js ''Hello'', toolName = None,
          toolInput = None, isStreaming = True\<rparr>]],
      messageCounter = 1, sent = []\<rparr>"
  by (simp add: str_defs clean_defs ui_defs parse_defs client_defs)

text \<open>
  C1, as the spec states it, fails: the chunks \<open>Hello\<close> and \<open> world\n\<close> are not glued
  into \<open>Hello world\<close>. Every chunk is split into lines of its own, and each surviving
  line is appended to the buffer after a line feed, so the assistant message reads
  \<open>Hello\<close>, line feed, \<open> world\<close>.
\<close>

theorem C1_content_is_not_hello_world:
  "map content
     (messages_of
        (processData (js ''demo'')
           (processData (js ''demo'')
              (processData (js ''demo'') init_client (js ''Hello''))
              (js '' world'' @ [10]))
           (js ''Bash: ls -la''))
        (js ''demo''))
     = [js ''Hello'' @ 10 # js '' world'', js ''Bash: ls -la'']
   \<and> js ''Hello'' @ 10 # js '' world'' \<noteq> js ''Hello world''"
  by (simp add: str_defs clean_defs ui_defs parse_defs client_defs)

text \<open>
  C1, amended: feeding the parser the chunks \<open>Hello\<close>, \<open> world\n\<close> and then the line
  \<open>Bash: ls -la\<close> produces exactly two messages: an assistant message whose content is
  \<open>Hello\<close>, a line feed and \<open> world\<close>, with \<open>isStreaming\<close> false after the flush, followed
  by a tool message with \<open>toolName\<close> \<open>Bash\<close>, content \<open>Bash: ls -la\<close> and \<open>toolInput\<close>
  \<open> ls -la\<close>.
\<close>

theorem C1_scenario_messages:
  "messages_of
     (processData (js ''demo'')
        (processData (js ''demo'')
           (processData (js ''demo'') init_client (js ''Hello''))
           (js '' world'' @ [10]))
        (js ''Bash: ls -la''))
     (js ''demo'')
   = [\<lparr>msg_id = 1, role = AssistantRole, content = js ''Hello'' @ 10 # js '' world'',
       toolName = None, toolInput = None, isStreaming = False\<rparr>,
      \<lparr>msg_id = 2, role = ToolRole, content = js ''Bash: ls -la'',
       toolName = Some (js ''Bash''), toolInput = Some (js '' ls -la''),
       isStreaming = False\<rparr>]"
  by (simp add: str_defs clean_defs ui_defs parse_defs client_defs)

lemma after_hello_open:
  "open_message (parser (processData (js ''demo'') init_client (js ''Hello''))) = Some 1"
  by (simp add: after_hello open_message_def)

section \<open>Short lines\<close>

lemma length_trim_le: "length (trim s) \<le> length s"
proof -
  have "length (dropWhile is_space (rev (dropWhile is_space s)))
      \<le> length (rev (dropWhile is_space s))"
    by (rule length_dropWhile_le)
  also have "\<dots> \<le> length s"
    by (simp add: length_dropWhile_le)
  finally show ?thesis
    by (simp add: trim_def)
qed

lemma parse_short_skip: "length (trim d) < 2 \<Longrightarrow> parseClaudeOutput d = ParsedSkip"
  by (simp add: parseClaudeOutput_def Let_def)

text \<open>
  C10: for every line whose trimmed text is shorter than 2 code units, the classifier
  \<open>parseClaudeOutput\<close> returns \<open>skip\<close> (on the line and on its trimmed text, which is what
  \<open>processData\<close> passes), and the loop body of \<open>processData\<close> drops the line: the client
  state, and so the transcript, is unchanged. Nothing in the hypothesis looks at the
  content of the line, so a single letter is dropped as well.
\<close>

theorem C10_short_line_skipped:
  assumes "length (trim line) < 2"
  shows "parseClaudeOutput line = ParsedSkip \<and> parseClaudeOutput (trim line) = ParsedSkip
     \<and> process_line sid st line = st"
proof -
  have "length (trim (trim line)) \<le> length (trim line)"
    by (rule length_trim_le)
  with assms have "length (trim (trim line)) < 2"
    by simp
  then have "parseClaudeOutput (trim line) = ParsedSkip"
    by (rule parse_short_skip)
  moreover from assms have "parseClaudeOutput line = ParsedSkip"
    by (rule parse_short_skip)
  ultimately show ?thesis
    by (simp add: process_line_def Let_def)
qed

text \<open>The line \<open>a\<close>, a single letter, arriving while the message \<open>Hello\<close> is open.\<close>

theorem C10_short_line_skipped_witness:
  "length (trim (js ''a'')) < 2 \<and> list_ex is_alpha (trim (js ''a''))
   \<and> parseClaudeOutput (js ''a'') = ParsedSkip
   \<and> process_line (js ''demo'') (processData (js ''demo'') init_client (js ''Hello'')) (js ''a'')
       = processData (js ''demo'') init_client (js ''Hello'')"
proof -
  have h: "length (trim (js ''a'')) < 2"
    by (simp add: str_defs)
  have a: "list_ex is_alpha (trim (js ''a''))"
    by (simp add: str_defs)
  from C10_short_line_skipped [OF h, of "js ''demo''"
      "processData (js ''demo'') init_client (js ''Hello'')"] h a
  show ?thesis by simp
qed

section \<open>Accumulation of raw lines\<close>









section \<open>Message boundaries\<close>

text \<open>
  C2 does not hold of the code. With the assistant message \<open>Hello\<close> open (role assistant,
  message id 1, buffer \<open>Hello\<close>): the exit event marks message 1 as not streaming but
  leaves all three fields of the parser as they were, and a tool line clears the role and
  the message id but leaves the buffer \<open>Hello\<close>. After the exit a further raw line
  \<open>again\<close> is therefore appended to the closed message 1, which becomes streaming again.
  The branch for a user line and \<open>sendInput\<close> do reset all three fields.
\<close>

theorem C2_exit_and_tool_keep_parser_state:
  "parser (onmessage (js ''demo'') (processData (js ''demo'') init_client (js ''Hello''))
       (ExitMsg 0))
     = \<lparr>currentRole = Some AssistantRole, buffer = js ''Hello'', currentMessageId = Some 1\<rparr>
   \<and> parser (processData (js ''demo'') (processData (js ''demo'') init_client (js ''Hello''))
        (js ''Bash: ls -la''))
     = \<lparr>currentRole = None, buffer = js ''Hello'', currentMessageId = None\<rparr>
   \<and> messages_of
       (processData (js ''demo'')
          (onmessage (js ''demo'') (processData (js ''demo'') init_client (js ''Hello''))
             (ExitMsg 0))
          (js ''again''))
       (js ''demo'')
     = [\<lparr>msg_id = 1, role = AssistantRole, content = js ''Hello'' @ 10 # js ''again'',
         toolName = None, toolInput = None, isStreaming = True\<rparr>,
        \<lparr>msg_id = 2, role = SystemRole, content = js ''Process exited with code 0'',
         toolName = None, toolInput = None, isStreaming = False\<rparr>]"
  by (simp add: after_hello)
    (simp add: str_defs clean_defs ui_defs parse_defs client_defs int_str_def)

section \<open>Sending input\<close>

text \<open>
  C6, as stated for every input string, fails: Ctrl+C (the single code unit 3), sent while
  the assistant message \<open>Hello\<close> is open, is dispatched and the message stays open and
  streaming.
\<close>

theorem C6_ctrl_c_does_not_flush:
  "open_message (parser (processData (js ''demo'') init_client (js ''Hello''))) = Some 1
   \<and> sent (sendInput True (Some (js ''demo''))
        (processData (js ''demo'') init_client (js ''Hello'')) [3])
       = [Input [3]]
   \<and> parser (sendInput True (Some (js ''demo''))
        (processData (js ''demo'') init_client (js ''Hello'')) [3])
       = \<lparr>currentRole = Some AssistantRole, buffer = js ''Hello'', currentMessageId = Some 1\<rparr>
   \<and> map isStreaming (messages_of
        (sendInput True (Some (js ''demo''))
           (processData (js ''demo'') init_client (js ''Hello'')) [3])
        (js ''demo'')) = [True]"
  by (simp add: after_hello)
    (simp add: sendInput_def sendInput_prepare_def ws_send_def open_message_def
      messages_of_def str_defs)

lemma finalized_all:
  "list_all (\<lambda>m. msg_id m = mid \<longrightarrow> \<not> isStreaming m)
     (map (\<lambda>m. if msg_id m = mid then m\<lparr>isStreaming := False\<rparr> else m) ms)"
  by (induction ms) simp_all

lemma sendInput_prepare_open:
  assumes "trim d \<noteq> []" and "d \<noteq> [3]" and "open_message (parser st) = Some mid"
  shows "sendInput_prepare (Some sid) st d =
     (updateMessage (addMessage (snd (createMessage st UserRole (strip_final_nl d))) sid
          (fst (createMessage st UserRole (strip_final_nl d)))) sid mid
        (\<lambda>m. m\<lparr>isStreaming := False\<rparr>))
       \<lparr>parser := \<lparr>currentRole = None, buffer = [], currentMessageId = None\<rparr>\<rparr>"
  using assms
  by (simp add: sendInput_prepare_def createMessage_def addMessage_def Let_def)

text \<open>
  C6, amended: for every input string whose trimmed text is not empty and which is not
  Ctrl+C, sent by \<open>sendInput\<close> of a hook with a session id over an open socket while an
  assistant accumulation is open, the state in which the input is dispatched
  (\<open>sendInput_prepare\<close>, handed to \<open>ws_send\<close>) has the parser cleared and every message
  with the open id marked as not streaming, and nothing has been sent before; the dispatch
  then appends the input to what was sent.
\<close>

theorem C6_input_flushes_open_message:
  assumes "trim d \<noteq> []" and "d \<noteq> [3]" and "open_message (parser st) = Some mid"
  shows "sendInput True (Some sid) st d = ws_send (sendInput_prepare (Some sid) st d) (Input d)
     \<and> parser (sendInput_prepare (Some sid) st d)
         = \<lparr>currentRole = None, buffer = [], currentMessageId = None\<rparr>
     \<and> list_all (\<lambda>m. msg_id m = mid \<longrightarrow> \<not> isStreaming m)
         (messages_of (sendInput_prepare (Some sid) st d) sid)
     \<and> sent (sendInput_prepare (Some sid) st d) = sent st
     \<and> sent (sendInput True (Some sid) st d) = sent st @ [Input d]"
proof -
  note p = sendInput_prepare_open [OF assms, of sid]
  have m: "messages_of (sendInput_prepare (Some sid) st d) sid =
      map (\<lambda>m. if msg_id m = mid then m\<lparr>isStreaming := False\<rparr> else m)
        (messages_of (addMessage (snd (createMessage st UserRole (strip_final_nl d))) sid
          (fst (createMessage st UserRole (strip_final_nl d)))) sid)"
    unfolding p by (simp add: updateMessage_def messages_of_def)
  have 1: "sendInput True (Some sid) st d
      = ws_send (sendInput_prepare (Some sid) st d) (Input d)"
    by (simp add: sendInput_def)
  have 2: "parser (sendInput_prepare (Some sid) st d)
         = \<lparr>currentRole = None, buffer = [], currentMessageId = None\<rparr>"
    unfolding p by simp
  have 3: "list_all (\<lambda>m. msg_id m = mid \<longrightarrow> \<not> isStreaming m)
         (messages_of (sendInput_prepare (Some sid) st d) sid)"
    unfolding m by (rule finalized_all)
  have 4: "sent (sendInput_prepare (Some sid) st d) = sent st"
    unfolding p by (simp add: updateMessage_def addMessage_def createMessage_def)
  have 5: "sent (sendInput True (Some sid) st d) = sent st @ [Input d]"
    unfolding 1 using 4 by (simp add: ws_send_def)
  from 1 2 3 4 5 show ?thesis
    by blast
qed

text \<open>The input \<open>ok\n\<close>, sent while the assistant message \<open>Hello\<close> is open.\<close>

theorem C6_input_flushes_open_message_witness:
  "trim (js ''ok'' @ [10]) \<noteq> [] \<and> js ''ok'' @ [10] \<noteq> [3]
   \<and> open_message (parser (processData (js ''demo'') init_client (js ''Hello''))) = Some 1
   \<and> parser (sendInput_prepare (Some (js ''demo''))
         (processData (js ''demo'') init_client (js ''Hello'')) (js ''ok'' @ [10]))
       = \<lparr>currentRole = None, buffer = [], currentMessageId = None\<rparr>
   \<and> list_all (\<lambda>m. msg_id m = 1 \<longrightarrow> \<not> isStreaming m)
       (messages_of (sendInput_prepare (Some (js ''demo''))
          (processData (js ''demo'') init_client (js ''Hello'')) (js ''ok'' @ [10]))
          (js ''demo''))
   \<and> sent (sendInput True (Some (js ''demo''))
         (processData (js ''demo'') init_client (js ''Hello'')) (js ''ok'' @ [10]))
       = sent (processData (js ''demo'') init_client (js ''Hello''))
           @ [Input (js ''ok'' @ [10])]"
proof -
  let ?st = "processData (js ''demo'') init_client (js ''Hello'')"
  have a: "trim (js ''ok'' @ [10]) \<noteq> []"
    by (simp add: str_defs)
  have b: "js ''ok'' @ [10] \<noteq> [3]"
    by (simp add: str_defs)
  have c: "open_message (parser ?st) = Some 1"
    by (rule after_hello_open)
  from C6_input_flushes_open_message [OF a b c, of "js ''demo''"] a b c
  show ?thesis by blast
qed

section \<open>The manager: processes and status\<close>

lemma tracked_init: "tracked init_manager"
  by (simp add: tracked_def init_manager_def)

lemma tracked_create: "tracked m \<Longrightarrow> tracked (snd (createSession m u n d))"
  by (simp add: tracked_def createSession_def Let_def)

lemma start_fields:
  "map_of (sessions m) i = Some r \<Longrightarrow>
   objs (snd (startSession m i True)) =
     (objs m)(r := (objs m r)\<lparr>pty := Some (next_proc m), status := Running\<rparr>) \<and>
   procs (snd (startSession m i True)) = (procs m)(next_proc m :=
      \<lparr>owner = r, owner_id = i, cwd = workingDir (objs m r), cols = 120, rows = 40,
       written = [], killed = False, exited = False\<rparr>) \<and>
   next_proc (snd (startSession m i True)) = next_proc m + 1"
  "map_of (sessions m) i = Some r \<Longrightarrow>
   objs (snd (startSession m i False)) = (objs m)(r := (objs m r)\<lparr>status := Error\<rparr>) \<and>
   procs (snd (startSession m i False)) = procs m \<and>
   next_proc (snd (startSession m i False)) = next_proc m"
  "map_of (sessions m) i = None \<Longrightarrow> snd (startSession m i ok) = m"
  by (simp_all add: startSession_def Let_def)

lemma tracked_start:
  assumes "tracked m"
  shows "tracked (snd (startSession m i ok))"
proof (cases "map_of (sessions m) i")
  case None
  then show ?thesis
    using assms by (simp add: start_fields)
next
  case (Some r)
  show ?thesis
  proof (cases ok)
    case True
    with assms start_fields(1) [OF Some] show ?thesis
      apply (simp add: tracked_def)
      by (metis less_Suc_eq less_irrefl_nat)
  next
    case False
    with assms start_fields(2) [OF Some] show ?thesis
      by (simp add: tracked_def)
  qed
qed

lemma tracked_sendInput: "tracked m \<Longrightarrow> tracked (snd (sendInput_mgr m i d))"
  by (simp add: tracked_def sendInput_mgr_def split: option.splits)

lemma tracked_resize:
  "tracked m \<Longrightarrow> tracked (case resizeSession m i c r of Inl e \<Rightarrow> m | Inr (b, m') \<Rightarrow> m')"
  by (simp add: tracked_def resizeSession_def split: option.splits)

lemma tracked_stop: "tracked m \<Longrightarrow> tracked (snd (stopSession m i))"
  by (simp add: tracked_def stopSession_def split: option.splits)

lemma tracked_delete: "tracked m \<Longrightarrow> tracked (snd (deleteSession m i))"
  by (simp add: tracked_def deleteSession_def Let_def split: option.splits)

lemma tracked_data: "tracked m \<Longrightarrow> tracked (pty_onData m h d)"
  by (simp add: tracked_def pty_onData_def Let_def)

text \<open>The exit of process \<open>h\<close> marks the object its callback closed over as stopped; any
  other object points to another process, because a process belongs to the object it
  was spawned for.\<close>

lemma tracked_exit:
  assumes "tracked m"
  shows "tracked (pty_onExit m h c)"
proof -
  let ?m = "pty_onExit m h c"
  have o: "\<And>r. pty (objs ?m r) = pty (objs m r)"
    and s: "\<And>r. status (objs ?m r) = Running \<Longrightarrow>
              status (objs m r) = Running \<and> r \<noteq> owner (procs m h)"
    and p: "\<And>k. owner (procs ?m k) = owner (procs m k)"
    and e: "\<And>k. k \<noteq> h \<Longrightarrow> exited (procs ?m k) = exited (procs m k)"
    and n: "next_proc ?m = next_proc m"
    by (simp_all add: pty_onExit_def Let_def split: if_splits)
  show ?thesis
    unfolding tracked_def
  proof (intro conjI allI impI)
    fix r assume "status (objs ?m r) = Running"
    with s have "status (objs m r) = Running"
      by blast
    with assms show "pty (objs ?m r) \<noteq> None"
      by (simp add: o tracked_def)
  next
    fix r k assume "pty (objs ?m r) = Some k"
    then have k: "pty (objs m r) = Some k"
      by (simp add: o)
    with assms show "k < next_proc ?m"
      by (simp add: n tracked_def)
  next
    fix r k assume "pty (objs ?m r) = Some k"
    then have k: "pty (objs m r) = Some k"
      by (simp add: o)
    with assms show "owner (procs ?m k) = r"
      by (simp add: p tracked_def)
  next
    fix r k assume "pty (objs ?m r) = Some k" and run: "status (objs ?m r) = Running"
    then have k: "pty (objs m r) = Some k"
      by (simp add: o)
    from s [OF run] have r: "status (objs m r) = Running" and ne: "r \<noteq> owner (procs m h)"
      by simp_all
    from assms k have ow: "owner (procs m k) = r"
      by (simp add: tracked_def)
    with ne have "k \<noteq> h"
      by auto
    moreover from assms k r have "\<not> exited (procs m k)"
      by (simp add: tracked_def)
    ultimately show "\<not> exited (procs ?m k)"
      by (simp add: e)
  qed
qed

lemma tracked_step: "tracked m \<Longrightarrow> tracked (mgr_step m ev)"
  by (cases ev) (simp_all add: tracked_create tracked_start tracked_sendInput tracked_resize
      tracked_stop tracked_delete tracked_data tracked_exit)

lemma tracked_foldl: "tracked m \<Longrightarrow> tracked (foldl mgr_step m evs)"
  by (induction evs arbitrary: m) (simp_all add: tracked_step)

lemma tracked_run: "tracked (mgr_run evs)"
  by (simp add: mgr_run_def tracked_foldl tracked_init)

text \<open>Three concrete runs of the manager.\<close>

lemma run_create:
  "mgr_run [EvCreate (js ''s1'') (js ''demo'') (js ''/tmp'')] =
     init_manager\<lparr>
       objs := (objs init_manager)(0 := \<lparr>sess_id = js ''s1'', sess_name = js ''demo'',
          workingDir = js ''/tmp'', pty = None, status = Stopped, logs = []\<rparr>),
       next_obj := 1, sessions := [(js ''s1'', 0)]\<rparr>"
  by (simp add: mgr_defs js_def)

lemma run_create_start:
  "mgr_run [EvCreate (js ''s1'') (js ''demo'') (js ''/tmp''), EvStart (js ''s1'') True] =
     init_manager\<lparr>
       objs := (objs init_manager)(0 := \<lparr>sess_id = js ''s1'', sess_name = js ''demo'',
          workingDir = js ''/tmp'', pty = Some 0, status = Running, logs = []\<rparr>),
       next_obj := 1, sessions := [(js ''s1'', 0)],
       procs := (procs init_manager)(0 := \<lparr>owner = 0, owner_id = js ''s1'',
          cwd = js ''/tmp'', cols = 120, rows = 40, written = [], killed = False,
          exited = False\<rparr>),
       next_proc := 1\<rparr>"
  by (simp add: mgr_defs js_def)

lemma run_create_start_stop:
  "mgr_run [EvCreate (js ''s1'') (js ''demo'') (js ''/tmp''), EvStart (js ''s1'') True,
       EvStop (js ''s1'')] =
     init_manager\<lparr>
       objs := (objs init_manager)(0 := \<lparr>sess_id = js ''s1'', sess_name = js ''demo'',
          workingDir = js ''/tmp'', pty = Some 0, status = Stopped, logs = []\<rparr>),
       next_obj := 1, sessions := [(js ''s1'', 0)],
       procs := (procs init_manager)(0 := \<lparr>owner = 0, owner_id = js ''s1'',
          cwd = js ''/tmp'', cols = 120, rows = 40, written = [], killed = True,
          exited = False\<rparr>),
       next_proc := 1\<rparr>"
  by (simp add: mgr_defs js_def)

text \<open>
  C4, as an equivalence, fails: after create, start and stop, the session is in the
  registry with status \<open>stopped\<close>, while its process field still holds process 0, which has
  been killed but has not reported its exit.
\<close>

theorem C4_stopped_with_live_process:
  "map_of (sessions (mgr_run [EvCreate (js ''s1'') (js ''demo'') (js ''/tmp''),
        EvStart (js ''s1'') True, EvStop (js ''s1'')])) (js ''s1'') = Some 0
   \<and> status (objs (mgr_run [EvCreate (js ''s1'') (js ''demo'') (js ''/tmp''),
        EvStart (js ''s1'') True, EvStop (js ''s1'')]) 0) = Stopped
   \<and> pty (objs (mgr_run [EvCreate (js ''s1'') (js ''demo'') (js ''/tmp''),
        EvStart (js ''s1'') True, EvStop (js ''s1'')]) 0) = Some 0
   \<and> exited (procs (mgr_run [EvCreate (js ''s1'') (js ''demo'') (js ''/tmp''),
        EvStart (js ''s1'') True, EvStop (js ''s1'')]) 0) = False"
  by (simp add: run_create_start_stop init_manager_def)

text \<open>
  C4, amended: in every state the manager reaches by calls of its methods and by reports
  of its processes, for every session in the registry, status \<open>running\<close> implies that the
  session's process field is non-null and that this process, spawned for this session
  object, has not reported its exit.
\<close>

theorem C4_running_has_live_process:
  assumes "map_of (sessions (mgr_run evs)) i = Some r"
    and "status (objs (mgr_run evs) r) = Running"
  shows "\<exists>h. pty (objs (mgr_run evs) r) = Some h \<and> h < next_proc (mgr_run evs) \<and>
             owner (procs (mgr_run evs) h) = r \<and> \<not> exited (procs (mgr_run evs) h)"
proof -
  have t: "tracked (mgr_run evs)"
    by (rule tracked_run)
  with assms(2) obtain h where h: "pty (objs (mgr_run evs) r) = Some h"
    by (auto simp: tracked_def)
  with t assms(2) show ?thesis
    by (simp add: tracked_def)
qed

text \<open>The run create, start: session \<open>s1\<close> is running on process 0.\<close>

theorem C4_running_has_live_process_witness:
  "map_of (sessions (mgr_run [EvCreate (js ''s1'') (js ''demo'') (js ''/tmp''),
        EvStart (js ''s1'') True])) (js ''s1'') = Some 0
   \<and> status (objs (mgr_run [EvCreate (js ''s1'') (js ''demo'') (js ''/tmp''),
        EvStart (js ''s1'') True]) 0) = Running
   \<and> (\<exists>h. pty (objs (mgr_run [EvCreate (js ''s1'') (js ''demo'') (js ''/tmp''),
               EvStart (js ''s1'') True]) 0) = Some h
          \<and> \<not> exited (procs (mgr_run [EvCreate (js ''s1'') (js ''demo'') (js ''/tmp''),
               EvStart (js ''s1'') True]) h))"
proof -
  let ?m = "mgr_run [EvCreate (js ''s1'') (js ''demo'') (js ''/tmp''), EvStart (js ''s1'') True]"
  have a: "map_of (sessions ?m) (js ''s1'') = Some 0"
    by (simp add: run_create_start)
  have b: "status (objs ?m 0) = Running"
    by (simp add: run_create_start)
  from C4_running_has_live_process [OF a b] a b show ?thesis
    by blast
qed

section \<open>The manager: input and resize\<close>

text \<open>
  C7, as stated for every session that is not running, fails: after create, start and
  stop the session is stopped, yet \<open>sendInput\<close> and \<open>resize\<close> find its process field set,
  call the killed process, which has not yet reported its exit, and return true.
\<close>

theorem C7_stopped_session_accepts_input:
  "status (objs (mgr_run [EvCreate (js ''s1'') (js ''demo'') (js ''/tmp''),
        EvStart (js ''s1'') True, EvStop (js ''s1'')]) 0) = Stopped
   \<and> fst (sendInput_mgr (mgr_run [EvCreate (js ''s1'') (js ''demo'') (js ''/tmp''),
        EvStart (js ''s1'') True, EvStop (js ''s1'')]) (js ''s1'') (js ''ls'')) = True
   \<and> written (procs (snd (sendInput_mgr (mgr_run [EvCreate (js ''s1'') (js ''demo'')
        (js ''/tmp''), EvStart (js ''s1'') True, EvStop (js ''s1'')]) (js ''s1'') (js ''ls''))) 0)
       = [js ''ls'']
   \<and> resizeSession (mgr_run [EvCreate (js ''s1'') (js ''demo'') (js ''/tmp''),
        EvStart (js ''s1'') True, EvStop (js ''s1'')]) (js ''s1'') 80 24
       = Inr (True,
           (mgr_run [EvCreate (js ''s1'') (js ''demo'') (js ''/tmp''),
              EvStart (js ''s1'') True, EvStop (js ''s1'')])
           \<lparr>procs := (procs (mgr_run [EvCreate (js ''s1'') (js ''demo'') (js ''/tmp''),
                EvStart (js ''s1'') True, EvStop (js ''s1'')]))
              (0 := (procs (mgr_run [EvCreate (js ''s1'') (js ''demo'') (js ''/tmp''),
                EvStart (js ''s1'') True, EvStop (js ''s1'')]) 0)\<lparr>cols := 80, rows := 24\<rparr>)\<rparr>)"
  by (simp add: run_create_start_stop)
    (simp add: init_manager_def sendInput_mgr_def resizeSession_def js_def)

text \<open>
  C7, amended: for every session id that is not in the registry, or whose session has no
  process (its process field is null: no start has succeeded yet), \<open>sendInput\<close> and
  \<open>resize\<close> return false, without throwing, and leave the whole manager state unchanged.
\<close>

theorem C7_no_process_no_input:
  assumes "(case map_of (sessions m) i of None \<Rightarrow> True | Some r \<Rightarrow> pty (objs m r) = None)"
  shows "sendInput_mgr m i d = (False, m) \<and> resizeSession m i c r' = Inr (False, m)"
  using assms
  by (cases "map_of (sessions m) i") (simp_all add: sendInput_mgr_def resizeSession_def)

text \<open>A session created and never started.\<close>

theorem C7_no_process_no_input_witness:
  "(case map_of (sessions (mgr_run [EvCreate (js ''s1'') (js ''demo'') (js ''/tmp'')]))
           (js ''s1'') of
      None \<Rightarrow> True
    | Some r \<Rightarrow> pty (objs (mgr_run [EvCreate (js ''s1'') (js ''demo'') (js ''/tmp'')]) r) = None)
   \<and> sendInput_mgr (mgr_run [EvCreate (js ''s1'') (js ''demo'') (js ''/tmp'')])
         (js ''s1'') (js ''ls'')
       = (False, mgr_run [EvCreate (js ''s1'') (js ''demo'') (js ''/tmp'')])
   \<and> resizeSession (mgr_run [EvCreate (js ''s1'') (js ''demo'') (js ''/tmp'')])
         (js ''s1'') 80 24
       = Inr (False, mgr_run [EvCreate (js ''s1'') (js ''demo'') (js ''/tmp'')])"
proof -
  let ?m = "mgr_run [EvCreate (js ''s1'') (js ''demo'') (js ''/tmp'')]"
  have h: "(case map_of (sessions ?m) (js ''s1'') of
      None \<Rightarrow> True | Some r \<Rightarrow> pty (objs ?m r) = None)"
    by (simp add: run_create init_manager_def)
  from C7_no_process_no_input [OF h, of "js ''ls''" 80 24] h show ?thesis
    by simp
qed

section \<open>The manager: a failed start\<close>

text \<open>
  C9: if the spawn fails during \<open>start(id)\<close> for a session in the registry, \<open>start\<close>
  returns false, the session's status becomes \<open>error\<close> and the session stays in the
  registry under the same id; a further \<open>start(id)\<close> whose spawn succeeds returns true
  and leaves the same session, under the same id, running.
\<close>

theorem C9_failed_start_can_be_retried:
  assumes "map_of (sessions m) i = Some r"
  shows "fst (startSession m i False) = False
     \<and> status (objs (snd (startSession m i False)) r) = Error
     \<and> map_of (sessions (snd (startSession m i False))) i = Some r
     \<and> fst (startSession (snd (startSession m i False)) i True) = True
     \<and> status (objs (snd (startSession (snd (startSession m i False)) i True)) r) = Running
     \<and> map_of (sessions (snd (startSession (snd (startSession m i False)) i True))) i = Some r"
  using assms by (simp add: startSession_def Let_def)

text \<open>A session just created: a first start whose spawn fails, then a retry.\<close>

theorem C9_failed_start_can_be_retried_witness:
  "map_of (sessions (mgr_run [EvCreate (js ''s1'') (js ''demo'') (js ''/tmp'')])) (js ''s1'')
       = Some 0
   \<and> fst (startSession (mgr_run [EvCreate (js ''s1'') (js ''demo'') (js ''/tmp'')])
         (js ''s1'') False) = False
   \<and> status (objs (snd (startSession (mgr_run [EvCreate (js ''s1'') (js ''demo'') (js ''/tmp'')])
         (js ''s1'') False)) 0) = Error
   \<and> fst (startSession (snd (startSession
         (mgr_run [EvCreate (js ''s1'') (js ''demo'') (js ''/tmp'')]) (js ''s1'') False))
         (js ''s1'') True) = True
   \<and> status (objs (snd (startSession (snd (startSession
         (mgr_run [EvCreate (js ''s1'') (js ''demo'') (js ''/tmp'')]) (js ''s1'') False))
         (js ''s1'') True)) 0) = Running"
proof -
  let ?m = "mgr_run [EvCreate (js ''s1'') (js ''demo'') (js ''/tmp'')]"
  have h: "map_of (sessions ?m) (js ''s1'') = Some 0"
    by (simp add: run_create)
  from C9_failed_start_can_be_retried [OF h] h show ?thesis
    by simp
qed

section \<open>Deleting a session\<close>

lemma absent_session_ops:
  assumes "map_of (sessions m) i = None"
  shows "startSession m i ok = (False, m)" and "stopSession m i = (False, m)"
    and "sendInput_mgr m i d = (False, m)" and "resizeSession m i c r = Inr (False, m)"
    and "deleteSession m i = (False, m)" and "getLogs m i lim = []"
  using assms
  by (simp_all add: startSession_def stopSession_def sendInput_mgr_def resizeSession_def
      deleteSession_def getLogs_def)

lemma delete_removes:
  "fst (deleteSession m i) \<Longrightarrow> map_of (sessions (snd (deleteSession m i))) i = None"
  by (simp add: deleteSession_def Let_def AList.delete_conv' split: option.splits)

text \<open>
  C8, as stated, fails in its clause on the fanout: a connection subscribes to session
  \<open>s1\<close>, the session is deleted (the route answers success), and the subscriber set of
  \<open>s1\<close> still holds the connection.
\<close>

theorem C8_subscribers_survive_delete:
  "fst (api_delete
          (on_message
             (on_connection (api_create init_server (js ''s1'') (js ''demo'') (js ''/tmp'')))
             0 (Subscribe (js ''s1'')))
          (js ''s1'')) = True
   \<and> sessionConnections
        (snd (api_delete
          (on_message
             (on_connection (api_create init_server (js ''s1'') (js ''demo'') (js ''/tmp'')))
             0 (Subscribe (js ''s1'')))
          (js ''s1'')))
        (js ''s1'') = Some {0}"
  by (simp add: srv_defs mgr_defs js_def)

text \<open>
  C8, amended: for every session id, after \<open>delete(id)\<close> succeeds the session (with its
  logs) is no longer in the registry, and every subsequent \<open>start\<close>, \<open>stop\<close>, \<open>sendInput\<close>
  and \<open>resize\<close> on that id returns false, and \<open>getLogs\<close> returns the empty list, each
  leaving the manager state unchanged.
\<close>

theorem C8_deleted_session_not_found:
  assumes "fst (deleteSession m i)"
  shows "map_of (sessions (snd (deleteSession m i))) i = None
     \<and> startSession (snd (deleteSession m i)) i ok = (False, snd (deleteSession m i))
     \<and> stopSession (snd (deleteSession m i)) i = (False, snd (deleteSession m i))
     \<and> sendInput_mgr (snd (deleteSession m i)) i d = (False, snd (deleteSession m i))
     \<and> resizeSession (snd (deleteSession m i)) i c r = Inr (False, snd (deleteSession m i))
     \<and> getLogs (snd (deleteSession m i)) i lim = []"
proof -
  from assms have "map_of (sessions (snd (deleteSession m i))) i = None"
    by (rule delete_removes)
  then show ?thesis
    by (simp add: absent_session_ops)
qed

text \<open>A running session is deleted; afterwards a start with a spawn that would succeed,
  a stop, an input and a request for all logs.\<close>

theorem C8_deleted_session_not_found_witness:
  "fst (deleteSession (mgr_run [EvCreate (js ''s1'') (js ''demo'') (js ''/tmp''),
        EvStart (js ''s1'') True]) (js ''s1''))
   \<and> fst (startSession (snd (deleteSession (mgr_run [EvCreate (js ''s1'') (js ''demo'')
        (js ''/tmp''), EvStart (js ''s1'') True]) (js ''s1''))) (js ''s1'') True) = False
   \<and> fst (stopSession (snd (deleteSession (mgr_run [EvCreate (js ''s1'') (js ''demo'')
        (js ''/tmp''), EvStart (js ''s1'') True]) (js ''s1''))) (js ''s1'')) = False
   \<and> fst (sendInput_mgr (snd (deleteSession (mgr_run [EvCreate (js ''s1'') (js ''demo'')
        (js ''/tmp''), EvStart (js ''s1'') True]) (js ''s1''))) (js ''s1'') (js ''ls'')) = False
   \<and> getLogs (snd (deleteSession (mgr_run [EvCreate (js ''s1'') (js ''demo'')
        (js ''/tmp''), EvStart (js ''s1'') True]) (js ''s1''))) (js ''s1'') None = []"
proof -
  let ?m = "mgr_run [EvCreate (js ''s1'') (js ''demo'') (js ''/tmp''), EvStart (js ''s1'') True]"
  have h: "fst (deleteSession ?m (js ''s1''))"
    by (simp add: run_create_start) (simp add: deleteSession_def init_manager_def js_def)
  from C8_deleted_session_not_found [OF h, of True "js ''ls''" 80 24 None] h show ?thesis
    by simp
qed

section \<open>Subscriptions\<close>

text \<open>
  C3 does not hold of the code. A connection subscribes to session \<open>A\<close> and then to
  session \<open>B\<close>: the handler overwrites \<open>subscribedSessionId\<close> without removing the
  connection from the set of \<open>A\<close>, so the connection is in both sets. Closing the
  connection removes it from the set of \<open>B\<close> only. With \<open>A\<close> a running session, output
  of its process is delivered to the connection although it is subscribed to \<open>B\<close>.
\<close>

theorem C3_resubscribe_keeps_old_subscription:
  "sessionConnections
     (on_message (on_message (on_connection init_server) 0 (Subscribe (js ''A''))) 0
        (Subscribe (js ''B'')))
     (js ''A'') = Some {0}
   \<and> sessionConnections
     (on_message (on_message (on_connection init_server) 0 (Subscribe (js ''A''))) 0
        (Subscribe (js ''B'')))
     (js ''B'') = Some {0}
   \<and> sessionConnections
     (on_close (on_message (on_message (on_connection init_server) 0 (Subscribe (js ''A''))) 0
        (Subscribe (js ''B''))) 0)
     (js ''A'') = Some {0}
   \<and> subscribedSessionId (conns
       (srv_pty_data
          (on_message
             (on_message
                (on_connection (snd (api_start
                   (api_create init_server (js ''A'') (js ''demo'') (js ''/tmp''))
                   (js ''A'') True)))
                0 (Subscribe (js ''A'')))
             0 (Subscribe (js ''B'')))
          0 (js ''hi'')) 0)
     = Some (js ''B'')
   \<and> received (conns
       (srv_pty_data
          (on_message
             (on_message
                (on_connection (snd (api_start
                   (api_create init_server (js ''A'') (js ''demo'') (js ''/tmp''))
                   (js ''A'') True)))
                0 (Subscribe (js ''A'')))
             0 (Subscribe (js ''B'')))
          0 (js ''hi'')) 0)
     = [LogsMsg [], LogsMsg [], DataMsg (js ''hi'') Stdout]"
  by (simp add: srv_defs mgr_defs js_def)

end
